theory Spec2Isabelle
  imports Main
begin

section \<open>Python string operations used by the installer\<close>

definition newline :: char where
  "newline = CHR 0x0A"

text \<open>The characters that \<^verbatim>\<open>str.strip()\<close> removes, in the ASCII range.\<close>

definition isspace :: "char \<Rightarrow> bool" where
  "isspace c = (c \<in> set [CHR 0x09, CHR 0x0A, CHR 0x0B, CHR 0x0C, CHR 0x0D,
                           CHR 0x1C, CHR 0x1D, CHR 0x1E, CHR 0x1F, CHR 0x20])"

definition strip :: "string \<Rightarrow> string" where
  "strip s = rev (dropWhile isspace (rev (dropWhile isspace s)))"

text \<open>\<^verbatim>\<open>s.lstrip(chars)\<close>: drops every leading character that occurs in \<open>chars\<close>.\<close>

definition lstrip_chars :: "string \<Rightarrow> string \<Rightarrow> string" where
  "lstrip_chars chars s = dropWhile (\<lambda>c. c \<in> set chars) s"

text \<open>\<^verbatim>\<open>s.split(sep)\<close> for a one-character separator; the result is never empty.\<close>

fun split_on :: "char \<Rightarrow> string \<Rightarrow> string list" where
  "split_on sep [] = [[]]"
| "split_on sep (c # cs) =
     (if c = sep then [] # split_on sep cs
      else (case split_on sep cs of
              [] \<Rightarrow> [[c]]
            | w # ws \<Rightarrow> (c # w) # ws))"

definition startswith :: "string \<Rightarrow> string \<Rightarrow> bool" where
  "startswith s p = (take (length p) s = p)"

text \<open>\<^verbatim>\<open>e.stderr.strip().split('\n')[-1]\<close>\<close>

definition last_line :: "string \<Rightarrow> string" where
  "last_line s = last (split_on newline (strip s))"

section \<open>Configuration\<close>

definition MAX_WORKERS :: nat where
  "MAX_WORKERS = 3"

definition NETWORK_RETRIES :: nat where
  "NETWORK_RETRIES = 2"

definition NETWORK_TIMEOUT :: nat where
  "NETWORK_TIMEOUT = 30"

text \<open>\<^verbatim>\<open>str(NETWORK_TIMEOUT)\<close>\<close>

definition NETWORK_TIMEOUT_str :: string where
  "NETWORK_TIMEOUT_str = ''30''"

section \<open>Subprocesses, exceptions and the environment\<close>

text \<open>
  One \<^verbatim>\<open>subprocess.run\<close> call: the argument vector and the two keyword arguments
  that decide which exceptions it can raise and whether it is bounded in time.
\<close>

record call =
  argv :: "string list"
  check :: bool
  timeout :: "nat option"

text \<open>
  What one \<^verbatim>\<open>subprocess.run\<close> call does: it returns a completed process with its
  standard output and standard error, or raises \<^verbatim>\<open>CalledProcessError\<close> (carrying the
  standard error), \<^verbatim>\<open>TimeoutExpired\<close>, or some other exception (an \<^verbatim>\<open>OSError\<close>
  when the program cannot be started).
\<close>

datatype proc_result =
    CompletedProcess string string
  | CalledProcessError string
  | TimeoutExpired
  | OSError

text \<open>The exceptions that leave the functions modelled here.\<close>

datatype exn = InvalidVersion | SubprocessError | TypeError

text \<open>The blocking effects of a job, in the order in which they happen.\<close>

datatype event = Run call | Sleep nat

text \<open>
  The world outside the installer. \<open>subprocess_run c k\<close> is what the \<open>k\<close>-th
  invocation (counted from 0) of the call \<open>c\<close> does. \<open>version_parse\<close> and
  \<open>version_ge\<close> stand for \<^verbatim>\<open>packaging.version.parse\<close> and for \<^verbatim>\<open>>=\<close> on the
  objects it returns; the library is not part of the repository, so both are
  parameters. \<open>version_parse s = None\<close> means that \<^verbatim>\<open>parse\<close> raises
  \<^verbatim>\<open>InvalidVersion\<close>. \<open>done_at p\<close> is the instant at which the pool finishes the
  job of package \<open>p\<close>.
\<close>

record 'v env =
  subprocess_run :: "call \<Rightarrow> nat \<Rightarrow> proc_result"
  version_parse :: "string \<Rightarrow> 'v option"
  version_ge :: "'v \<Rightarrow> 'v \<Rightarrow> bool"
  done_at :: "string \<Rightarrow> nat"

section \<open>get_installed_version\<close>

definition show_call :: "string \<Rightarrow> call" where
  "show_call package =
     \<lparr>argv = [''python3'', ''-m'', ''pip'', ''show'', package], check = False, timeout = None\<rparr>"

text \<open>
  The loop over the lines of the standard output: the first line that starts with
  \<^verbatim>\<open>Version:\<close> decides. \<^verbatim>\<open>line.split(':')[1]\<close> is the second field; an
  \<^verbatim>\<open>IndexError\<close> there would be caught by the bare \<^verbatim>\<open>except\<close>, which returns
  \<^verbatim>\<open>None\<close>.
\<close>

fun version_line :: "string list \<Rightarrow> string option" where
  "version_line [] = None"
| "version_line (line # rest) =
     (if startswith line ''Version:''
      then (case split_on (CHR '':'') line of
              _ # f # _ \<Rightarrow> Some (strip f)
            | _ \<Rightarrow> None)
      else version_line rest)"

definition get_installed_version :: "'v env \<Rightarrow> string \<Rightarrow> string option \<times> event list" where
  "get_installed_version e package =
     (case subprocess_run e (show_call package) 0 of
        CompletedProcess out err \<Rightarrow> (version_line (split_on newline out), [Run (show_call package)])
      | _ \<Rightarrow> (None, [Run (show_call package)]))"

section \<open>install_package\<close>

text \<open>A returned value: the tuple \<^verbatim>\<open>(package, success, message)\<close>.\<close>

type_synonym outcome = "string \<times> bool \<times> string"

text \<open>
  The condition of the \<^verbatim>\<open>if\<close> that guards the early return:
  \<^verbatim>\<open>current_version and version.parse(current_version) >= version.parse(spec.lstrip('>='))\<close>.
  \<^verbatim>\<open>None\<close> and the empty string are false in Python, and \<^verbatim>\<open>and\<close> does not
  evaluate its right operand then.
\<close>

definition already_satisfies :: "'v env \<Rightarrow> string option \<Rightarrow> string \<Rightarrow> exn + bool" where
  "already_satisfies e current_version spec =
     (case current_version of
        None \<Rightarrow> Inr False
      | Some cur \<Rightarrow>
          if cur = [] then Inr False
          else (case version_parse e cur of
                  None \<Rightarrow> Inl InvalidVersion
                | Some a \<Rightarrow>
                    (case version_parse e (lstrip_chars ''>='' spec) of
                       None \<Rightarrow> Inl InvalidVersion
                     | Some b \<Rightarrow> Inr (version_ge e a b))))"

definition install_call :: "string \<Rightarrow> string \<Rightarrow> call" where
  "install_call package spec =
     \<lparr>argv = [''python3'', ''-m'', ''pip'', ''install'', ''--user'',
              (if spec \<noteq> [] then package @ spec else package),
              ''--timeout'', NETWORK_TIMEOUT_str],
      check = True,
      timeout = Some (NETWORK_TIMEOUT * 2)\<rparr>"

text \<open>
  The \<^verbatim>\<open>for attempt in range(NETWORK_RETRIES + 1)\<close> loop, over the attempt numbers
  that are left. A loop that runs out of attempt numbers falls off the end of the
  function, which returns \<^verbatim>\<open>None\<close>. Logging leaves no trace in the model.
\<close>

fun attempts :: "'v env \<Rightarrow> string \<Rightarrow> string \<Rightarrow> nat list \<Rightarrow> (exn + outcome option) \<times> event list" where
  "attempts e package spec [] = (Inr None, [])"
| "attempts e package spec (attempt # rest) =
     (case subprocess_run e (install_call package spec) attempt of
        CompletedProcess out err \<Rightarrow>
          (Inr (Some (package, True, ''Success'')), [Run (install_call package spec)])
      | CalledProcessError err \<Rightarrow>
          if attempt = NETWORK_RETRIES
          then (Inr (Some (package, False, last_line err)), [Run (install_call package spec)])
          else (case attempts e package spec rest of
                  (r, tr) \<Rightarrow> (r, Run (install_call package spec) # Sleep (5 * (attempt + 1)) # tr))
      | TimeoutExpired \<Rightarrow>
          if attempt = NETWORK_RETRIES
          then (Inr (Some (package, False, ''Timeout'')), [Run (install_call package spec)])
          else (case attempts e package spec rest of
                  (r, tr) \<Rightarrow> (r, Run (install_call package spec) # Sleep (10 * (attempt + 1)) # tr))
      | OSError \<Rightarrow> (Inl SubprocessError, [Run (install_call package spec)]))"

definition install_package :: "'v env \<Rightarrow> string \<Rightarrow> string \<Rightarrow> (exn + outcome option) \<times> event list" where
  "install_package e package spec =
     (case get_installed_version e package of
        (current_version, tr0) \<Rightarrow>
          (case already_satisfies e current_version spec of
             Inl x \<Rightarrow> (Inl x, tr0)
           | Inr True \<Rightarrow> (Inr (Some (package, True, ''Already installed'')), tr0)
           | Inr False \<Rightarrow>
               (case attempts e package spec [0..<NETWORK_RETRIES + 1] of
                  (r, tr) \<Rightarrow> (r, tr0 @ tr))))"

text \<open>The executor calls of a trace are its \<^verbatim>\<open>pip install\<close> runs; the sleeps are its delays.\<close>

fun is_install :: "event \<Rightarrow> bool" where
  "is_install (Run c) = (take 4 (argv c) = [''python3'', ''-m'', ''pip'', ''install''])"
| "is_install (Sleep d) = False"

definition executor_calls :: "event list \<Rightarrow> nat" where
  "executor_calls tr = length (filter is_install tr)"

fun delays :: "event list \<Rightarrow> nat list" where
  "delays [] = []"
| "delays (Run c # tr) = delays tr"
| "delays (Sleep d # tr) = d # delays tr"

section \<open>parallel_install\<close>

text \<open>
  What the batch writes: the line that announces the batch, one progress line per
  result taken from a future (success flag, \<open>completed\<close>, \<open>len(packages)\<close>, package,
  message), and the calls of \<^verbatim>\<open>send_notification\<close> (\<open>completed\<close>, \<open>len(packages)\<close>).
  \<^verbatim>\<open>send_notification\<close> itself swallows a missing notifier and a timeout.
\<close>

datatype console = Banner nat nat | Progress bool nat nat string string | Notification nat nat

text \<open>
  A future of the thread pool: what \<^verbatim>\<open>future.result()\<close> gives back (the job's return
  value, or the exception the job raised, raised again), and the instant at which the
  job finished.
\<close>

record future =
  result :: "exn + outcome option"
  finished :: nat

definition submit :: "'v env \<Rightarrow> string \<Rightarrow> string \<Rightarrow> future" where
  "submit e package spec =
     \<lparr>result = fst (install_package e package spec), finished = done_at e package\<rparr>"

text \<open>
  The \<^verbatim>\<open>for future in futures\<close> loop with its state \<open>completed\<close>, \<open>failed\<close> and the
  console. Unpacking \<^verbatim>\<open>None\<close> into three names raises \<^verbatim>\<open>TypeError\<close>.
\<close>

fun results_loop ::
  "future list \<Rightarrow> nat \<Rightarrow> nat \<Rightarrow> string list \<Rightarrow> console list \<Rightarrow> (exn + string list) \<times> console list" where
  "results_loop [] len completed failed out = (Inr failed, out)"
| "results_loop (f # fs) len completed failed out =
     (case result f of
        Inl x \<Rightarrow> (Inl x, out)
      | Inr None \<Rightarrow> (Inl TypeError, out)
      | Inr (Some (package, success, message)) \<Rightarrow>
          results_loop fs len (completed + 1)
            (if success then failed else failed @ [package])
            (out @ [Progress success (completed + 1) len package message]
                 @ (if (completed + 1) mod 5 = 0 then [Notification (completed + 1) len] else [])))"

text \<open>
  \<open>packages\<close> is the dictionary as the list of its items in iteration order; its keys
  are distinct.
\<close>

definition parallel_install :: "'v env \<Rightarrow> (string \<times> string) list \<Rightarrow> (exn + string list) \<times> console list" where
  "parallel_install e packages =
     results_loop (map (\<lambda>(package, spec). submit e package spec) packages)
       (length packages) 0 [] [Banner (length packages) MAX_WORKERS]"



definition job_failed :: "'v env \<Rightarrow> string \<times> string \<Rightarrow> bool" where
  "job_failed e request =
     (case fst (install_package e (fst request) (snd request)) of
        Inr (Some (package, success, message)) \<Rightarrow> \<not> success
      | _ \<Rightarrow> False)"

text \<open>
  The order of completion, in the words of the specification: a list of packages is in
  completion order when the instants at which their jobs finished do not decrease along
  the list.
\<close>

definition in_completion_order :: "'v env \<Rightarrow> string list \<Rightarrow> bool" where
  "in_completion_order e failed = sorted (map (done_at e) failed)"

section \<open>uninstall_packages\<close>

definition uninstall_call :: "string \<Rightarrow> call" where
  "uninstall_call package =
     \<lparr>argv = [''python3'', ''-m'', ''pip'', ''uninstall'', ''-y'', package], check = True, timeout = None\<rparr>"

text \<open>
  Only \<^verbatim>\<open>CalledProcessError\<close> is caught; any other exception ends the loop and leaves
  the function.
\<close>

fun uninstall_loop :: "'v env \<Rightarrow> string list \<Rightarrow> string list \<Rightarrow> (exn + string list) \<times> event list" where
  "uninstall_loop e [] failed = (Inr failed, [])"
| "uninstall_loop e (package # rest) failed =
     (case subprocess_run e (uninstall_call package) 0 of
        CompletedProcess out err \<Rightarrow>
          (case uninstall_loop e rest failed of
             (r, tr) \<Rightarrow> (r, Run (uninstall_call package) # tr))
      | CalledProcessError err \<Rightarrow>
          (case uninstall_loop e rest (failed @ [package]) of
             (r, tr) \<Rightarrow> (r, Run (uninstall_call package) # tr))
      | _ \<Rightarrow> (Inl SubprocessError, [Run (uninstall_call package)]))"

definition uninstall_packages :: "'v env \<Rightarrow> string list \<Rightarrow> (exn + string list) \<times> event list" where
  "uninstall_packages e packages = uninstall_loop e packages []"

text \<open>The timeouts carried by the subprocess calls of a trace.\<close>

fun call_timeouts :: "event list \<Rightarrow> nat option list" where
  "call_timeouts [] = []"
| "call_timeouts (Run c # tr) = timeout c # call_timeouts tr"
| "call_timeouts (Sleep d # tr) = call_timeouts tr"

section \<open>A concrete version module for concrete runs\<close>

text \<open>
  The fragment of \<^verbatim>\<open>packaging.version\<close> on which concrete runs are evaluated: a
  string of decimal numbers separated by dots is a version, its release numbers; any
  other string (the empty string, a word) is not a version, and \<^verbatim>\<open>parse\<close> raises
  \<^verbatim>\<open>InvalidVersion\<close> for it. Two releases compare number by number, missing numbers
  counting as zero. The theorems about all environments do not depend on it.
\<close>

definition digit_value :: "char \<Rightarrow> nat option" where
  "digit_value c =
     map_of [(CHR ''0'', 0), (CHR ''1'', 1), (CHR ''2'', 2), (CHR ''3'', 3), (CHR ''4'', 4),
             (CHR ''5'', 5), (CHR ''6'', 6), (CHR ''7'', 7), (CHR ''8'', 8), (CHR ''9'', 9)] c"

fun number_value :: "string \<Rightarrow> nat \<Rightarrow> nat option" where
  "number_value [] acc = Some acc"
| "number_value (c # cs) acc =
     (case digit_value c of None \<Rightarrow> None | Some d \<Rightarrow> number_value cs (10 * acc + d))"

fun release_numbers :: "string list \<Rightarrow> nat list option" where
  "release_numbers [] = Some []"
| "release_numbers (w # ws) =
     (if w = [] then None
      else (case number_value w 0 of
              None \<Rightarrow> None
            | Some n \<Rightarrow> (case release_numbers ws of None \<Rightarrow> None | Some ns \<Rightarrow> Some (n # ns))))"

definition release_parse :: "string \<Rightarrow> nat list option" where
  "release_parse s = release_numbers (split_on (CHR ''.'') s)"

fun release_ge :: "nat list \<Rightarrow> nat list \<Rightarrow> bool" where
  "release_ge [] ys = list_all (\<lambda>y. y = 0) ys"
| "release_ge (x # xs) [] = True"
| "release_ge (x # xs) (y # ys) = (y < x \<or> (x = y \<and> release_ge xs ys))"

text \<open>
  \<open>pip_world installed failing\<close>: \<^verbatim>\<open>pip show\<close> prints the version of the packages in
  the table \<open>installed\<close> and nothing for the others; every \<^verbatim>\<open>pip install\<close> and
  \<^verbatim>\<open>pip uninstall\<close> follows the script \<open>failing\<close>, which gives each
  argument vector and invocation number its result.
\<close>

definition pip_world ::
  "(string \<times> string) list \<Rightarrow> (string list \<Rightarrow> nat \<Rightarrow> proc_result) \<Rightarrow> (string \<Rightarrow> nat) \<Rightarrow> nat list env" where
  "pip_world installed script done =
     \<lparr>subprocess_run = (\<lambda>c k.
         if take 4 (argv c) = [''python3'', ''-m'', ''pip'', ''show'']
         then (case map_of installed (last (argv c)) of
                 None \<Rightarrow> CompletedProcess [] ''WARNING: Package(s) not found''
               | Some v \<Rightarrow> CompletedProcess (''Name: '' @ last (argv c) @ [newline] @ ''Version: '' @ v @ [newline]) [])
         else script (argv c) k),
       version_parse = release_parse,
       version_ge = release_ge,
       done_at = done\<rparr>"

text \<open>Concrete worlds.\<close>

definition flask_installed :: "nat list env" where
  "flask_installed = pip_world [(''flask'', ''2.2.0'')] (\<lambda>a k. OSError) (\<lambda>p. 0)"

definition no_such_package :: "nat list env" where
  "no_such_package =
     pip_world []
       (\<lambda>a k. CalledProcessError
          (''ERROR: Could not find a version that satisfies the requirement nosuchpkg'' @ [newline] @
           ''ERROR: No matching distribution found for nosuchpkg'' @ [newline]))
       (\<lambda>p. 0)"

definition timeout_then_refused :: "nat list env" where
  "timeout_then_refused =
     pip_world []
       (\<lambda>a k. if k = 0 then TimeoutExpired else CalledProcessError ''ERROR: Connection refused'')
       (\<lambda>p. 0)"

definition always_refused :: "nat list env" where
  "always_refused =
     pip_world [(''requests'', ''2.0.0'')]
       (\<lambda>a k. CalledProcessError ''ERROR: Connection refused'')
       (\<lambda>p. 0)"

definition flask_only :: "nat list env" where
  "flask_only = pip_world [(''flask'', ''2.2.0'')] (\<lambda>a k. CompletedProcess [] []) (\<lambda>p. 0)"

definition slow_and_fast :: "nat list env" where
  "slow_and_fast =
     pip_world []
       (\<lambda>a k. if ''numpy'' \<in> set a then TimeoutExpired
               else CalledProcessError ''ERROR: No matching distribution found for whois'')
       (\<lambda>p. if p = ''numpy'' then 210 else 15)"

section \<open>Classification of failures, as the loop makes it\<close>

text \<open>
  The loop has two handlers: both retry while attempts are left. The factor of the
  delay is 5 in the handler of \<^verbatim>\<open>CalledProcessError\<close> and 10 in the handler of
  \<^verbatim>\<open>TimeoutExpired\<close>.
\<close>

definition retryable :: "proc_result \<Rightarrow> bool" where
  "retryable r = (case r of CalledProcessError err \<Rightarrow> True | TimeoutExpired \<Rightarrow> True | _ \<Rightarrow> False)"

definition backoff_base :: "proc_result \<Rightarrow> nat" where
  "backoff_base r = (case r of TimeoutExpired \<Rightarrow> 10 | _ \<Rightarrow> 5)"

section \<open>Basic facts\<close>

lemma get_installed_version_trace:
  "snd (get_installed_version e package) = [Run (show_call package)]"
  by (simp add: get_installed_version_def split: proc_result.splits)

lemma attempt_numbers: "[0..<NETWORK_RETRIES + 1] = [0, 1, 2]"
  by (simp add: NETWORK_RETRIES_def upt_rec)

lemma install_is_install: "is_install (Run (install_call package spec))"
  by (simp add: install_call_def)

lemma show_is_not_install: "is_install (Run (show_call package)) = False"
  by (simp add: show_call_def)


text \<open>A package that the version check does not hold back goes through the loop.\<close>

lemma install_package_dispatch:
  assumes "already_satisfies e (fst (get_installed_version e package)) spec = Inr False"
  shows "install_package e package spec =
     (fst (attempts e package spec [0, 1, 2]),
      Run (show_call package) # snd (attempts e package spec [0, 1, 2]))"
proof -
  obtain cur tr0 where g: "get_installed_version e package = (cur, tr0)"
    by (cases "get_installed_version e package")
  from get_installed_version_trace [of e package] g have tr0: "tr0 = [Run (show_call package)]"
    by simp
  from assms g show ?thesis
    unfolding install_package_def attempt_numbers
    by (simp add: tr0 split: prod.splits del: attempts.simps)
qed

lemma attempts_all_fail:
  assumes "retryable (subprocess_run e (install_call package spec) 0)"
    and "retryable (subprocess_run e (install_call package spec) 1)"
    and "retryable (subprocess_run e (install_call package spec) 2)"
  shows "\<exists>msg. attempts e package spec [0, 1, 2] =
     (Inr (Some (package, False, msg)),
      [Run (install_call package spec),
       Sleep (backoff_base (subprocess_run e (install_call package spec) 0) * 1),
       Run (install_call package spec),
       Sleep (backoff_base (subprocess_run e (install_call package spec) 1) * 2),
       Run (install_call package spec)])"
  using assms
  by (auto simp: retryable_def backoff_base_def NETWORK_RETRIES_def split: proc_result.splits)

lemma attempts_first_nonzero:
  assumes "subprocess_run e (install_call package spec) 0 = CalledProcessError err"
  shows "take 3 (snd (attempts e package spec [0, 1, 2])) =
     [Run (install_call package spec), Sleep 5, Run (install_call package spec)]"
  using assms
  by (auto simp: NETWORK_RETRIES_def split: proc_result.splits prod.splits)

lemma executor_calls_append:
  "executor_calls (tr @ tr') = executor_calls tr + executor_calls tr'"
  by (simp add: executor_calls_def)

lemma executor_calls_take: "executor_calls (take n tr) \<le> executor_calls tr"
  using executor_calls_append [of "take n tr" "drop n tr"] by simp

section \<open>Facts about the batch\<close>

lemma attempts_package:
  "fst (attempts e package spec ks) = Inr (Some (q, ok, m)) \<Longrightarrow> q = package"
  by (induction ks) (auto split: proc_result.splits if_splits prod.splits)

lemma install_package_cases:
  "fst (install_package e package spec) =
     (case already_satisfies e (fst (get_installed_version e package)) spec of
        Inl x \<Rightarrow> Inl x
      | Inr True \<Rightarrow> Inr (Some (package, True, ''Already installed''))
      | Inr False \<Rightarrow> fst (attempts e package spec [0, 1, 2]))"
proof -
  obtain cur tr0 where g: "get_installed_version e package = (cur, tr0)"
    by (cases "get_installed_version e package")
  show ?thesis
    unfolding install_package_def attempt_numbers
    by (simp add: g split: sum.splits bool.splits prod.splits del: attempts.simps)
qed

lemma install_package_package:
  "fst (install_package e package spec) = Inr (Some (q, ok, m)) \<Longrightarrow> q = package"
  unfolding install_package_cases
  by (auto split: sum.splits bool.splits dest: attempts_package simp del: attempts.simps)

lemma attempts_not_None: "fst (attempts e package spec [0, 1, 2]) \<noteq> Inr None"
  by (auto simp: NETWORK_RETRIES_def split: proc_result.splits prod.splits)

lemma install_package_not_None: "fst (install_package e package spec) \<noteq> Inr None"
  unfolding install_package_cases
  using attempts_not_None [of e package spec]
  by (simp split: sum.splits bool.splits del: attempts.simps)


lemma results_loop_failed:
  "results_loop (map (\<lambda>(package, spec). submit e package spec) pkgs) len c failed out = (Inr failed', out')
   \<Longrightarrow> failed' = failed @ map fst (filter (job_failed e) pkgs)"
proof (induction pkgs arbitrary: c failed out)
  case Nil
  then show ?case by simp
next
  case (Cons x pkgs)
  obtain p s where x: "x = (p, s)" by (cases x)
  show ?case
  proof (cases "fst (install_package e p s)")
    case (Inl exc)
    with Cons.prems x show ?thesis by (simp add: submit_def)
  next
    case (Inr r)
    with install_package_not_None [of e p s] obtain q ok m where r: "r = Some (q, ok, m)"
      by (cases r) auto
    with Inr install_package_package have q: "q = p" by blast
    from Cons.prems x Inr r q
    have "results_loop (map (\<lambda>(package, spec). submit e package spec) pkgs) len (c + 1)
            (if ok then failed else failed @ [p])
            (out @ [Progress ok (c + 1) len p m] @ (if (c + 1) mod 5 = 0 then [Notification (c + 1) len] else []))
          = (Inr failed', out')"
      by (simp add: submit_def)
    from Cons.IH [OF this] have "failed' = (if ok then failed else failed @ [p]) @ map fst (filter (job_failed e) pkgs)" .
    moreover from Inr r have "job_failed e (p, s) = (\<not> ok)"
      by (simp add: job_failed_def)
    ultimately show ?thesis
      using x by simp
  qed
qed


lemma attempts_done_at:
  "attempts (e\<lparr>done_at := d\<rparr>) package spec ks = attempts e package spec ks"
  by (induction ks) (simp_all split: proc_result.splits)

lemma get_installed_version_done_at:
  "get_installed_version (e\<lparr>done_at := d\<rparr>) package = get_installed_version e package"
  by (simp add: get_installed_version_def)

lemma already_satisfies_done_at:
  "already_satisfies (e\<lparr>done_at := d\<rparr>) cur spec = already_satisfies e cur spec"
  by (simp add: already_satisfies_def split: option.splits)

lemma install_package_done_at:
  "install_package (e\<lparr>done_at := d\<rparr>) package spec = install_package e package spec"
  by (simp only: install_package_def get_installed_version_done_at already_satisfies_done_at
      attempts_done_at)

lemma results_loop_cong:
  "map result fs = map result gs \<Longrightarrow>
   results_loop fs len c failed out = results_loop gs len c failed out"
proof (induction fs arbitrary: gs c failed out)
  case Nil
  then show ?case by simp
next
  case (Cons f fs)
  then obtain g gs' where gs: "gs = g # gs'" and fg: "result g = result f"
    and rest: "map result fs = map result gs'"
    by (cases gs) auto
  show ?case
    by (simp add: gs fg Cons.IH [OF rest] split: sum.splits option.splits prod.splits)
qed

lemma results_loop_done_at:
  "results_loop (map (\<lambda>(package, spec). submit (e\<lparr>done_at := d\<rparr>) package spec) pkgs) len c failed out =
   results_loop (map (\<lambda>(package, spec). submit e package spec) pkgs) len c failed out"
  by (rule results_loop_cong) (simp add: submit_def install_package_done_at split_def)

section \<open>Already satisfied packages\<close>

text \<open>
  What holds for a constraint whose version part parses: when a non-empty installed
  version is reported, both versions parse, and the installed one is at least the one of
  the constraint, the job returns \<^verbatim>\<open>Already installed\<close> (a success) and its trace is
  the version query alone, with no \<^verbatim>\<open>pip install\<close> run.
\<close>

theorem satisfied_constraint_not_installed_again:
  assumes "fst (get_installed_version e package) = Some cur"
    and "cur \<noteq> []"
    and "version_parse e cur = Some a"
    and "version_parse e (lstrip_chars ''>='' spec) = Some b"
    and "version_ge e a b"
  shows "install_package e package spec =
           (Inr (Some (package, True, ''Already installed'')), [Run (show_call package)]) \<and>
         executor_calls (snd (install_package e package spec)) = 0"
proof -
  obtain c tr0 where g: "get_installed_version e package = (c, tr0)"
    by (cases "get_installed_version e package")
  from get_installed_version_trace [of e package] g have tr0: "tr0 = [Run (show_call package)]"
    by simp
  from assms(1) g have c: "c = Some cur" by simp
  from assms(2-5) have "already_satisfies e (Some cur) spec = Inr True"
    by (simp add: already_satisfies_def)
  with g c tr0 have "install_package e package spec =
      (Inr (Some (package, True, ''Already installed'')), [Run (show_call package)])"
    by (simp add: install_package_def)
  then show ?thesis
    by (simp add: executor_calls_def show_call_def)
qed

theorem satisfied_constraint_not_installed_again_witness:
  "fst (get_installed_version flask_installed ''flask'') = Some ''2.2.0'' \<and>
   ''2.2.0'' \<noteq> [] \<and>
   version_parse flask_installed ''2.2.0'' = Some [2, 2, 0] \<and>
   version_parse flask_installed (lstrip_chars ''>='' ''>=2.2.0'') = Some [2, 2, 0] \<and>
   version_ge flask_installed [2, 2, 0] [2, 2, 0] \<and>
   install_package flask_installed ''flask'' ''>=2.2.0'' =
     (Inr (Some (''flask'', True, ''Already installed'')), [Run (show_call ''flask'')]) \<and>
   executor_calls (snd (install_package flask_installed ''flask'' ''>=2.2.0'')) = 0"
proof -
  have h1: "fst (get_installed_version flask_installed ''flask'') = Some ''2.2.0''"
    by code_simp
  have h2: "''2.2.0'' \<noteq> []"
    by simp
  have h3: "version_parse flask_installed ''2.2.0'' = Some [2, 2, 0]"
    by code_simp
  have h4: "version_parse flask_installed (lstrip_chars ''>='' ''>=2.2.0'') = Some [2, 2, 0]"
    by code_simp
  have h5: "version_ge flask_installed [2, 2, 0] [2, 2, 0]"
    by code_simp
  from satisfied_constraint_not_installed_again [OF h1 h2 h3 h4 h5] h1 h2 h3 h4 h5 show ?thesis
    by blast
qed

text \<open>
  Claim C6: a package whose installed version already satisfies its constraint is
  recorded as already satisfied, and the executor is not invoked for it. An
  unconstrained request is satisfied by any installed version. On the code, with
  requests installed at 2.0.0 and the empty constraint, no \<^verbatim>\<open>pip install\<close> run is
  made, but the package is not recorded as already satisfied: the version check parses
  the empty string and the job ends in \<^verbatim>\<open>InvalidVersion\<close>.
\<close>

theorem satisfied_unconstrained_package_not_recorded:
  "fst (get_installed_version always_refused ''requests'') = Some ''2.0.0'' \<and>
   fst (install_package always_refused ''requests'' '''') = Inl InvalidVersion \<and>
   fst (install_package always_refused ''requests'' '''') \<noteq>
     Inr (Some (''requests'', True, ''Already installed'')) \<and>
   executor_calls (snd (install_package always_refused ''requests'' '''')) = 0"
  by code_simp

section \<open>The constraint in the version check\<close>



section \<open>Retries\<close>

text \<open>
  Claim C1, as stated: a terminal failure of the first \<^verbatim>\<open>pip install\<close> run (a nonzero
  exit whose standard error names no network problem) is followed by no retry. It
  fails: for a package that does not exist, the job runs \<^verbatim>\<open>pip install\<close> three times,
  sleeping 5 and 10 seconds in between, before it returns the failure.
\<close>

theorem terminal_failure_is_retried:
  "executor_calls (snd (install_package no_such_package ''nosuchpkg'' '''')) = 3 \<and>
   executor_calls (snd (install_package no_such_package ''nosuchpkg'' '''')) \<noteq> 1 \<and>
   delays (snd (install_package no_such_package ''nosuchpkg'' '''')) = [5, 10] \<and>
   fst (install_package no_such_package ''nosuchpkg'' '''') =
     Inr (Some (''nosuchpkg'', False, ''ERROR: No matching distribution found for nosuchpkg''))"
  by code_simp

text \<open>
  Claim C1, amended. The loop does not look at the standard error: after a nonzero exit
  of the first \<^verbatim>\<open>pip install\<close> run, whatever its standard error, the job sleeps 5
  seconds and runs \<^verbatim>\<open>pip install\<close> again, so at least two runs are made; the job
  returns a failure exactly when the second and the third run fail as well (with a
  nonzero exit or a timeout), and then \<open>NETWORK_RETRIES + 1\<close> runs have been made.
\<close>

theorem nonzero_exit_retried_until_exhausted:
  assumes "already_satisfies e (fst (get_installed_version e package)) spec = Inr False"
    and "subprocess_run e (install_call package spec) 0 = CalledProcessError err"
  shows "take 4 (snd (install_package e package spec)) =
           [Run (show_call package), Run (install_call package spec), Sleep 5,
            Run (install_call package spec)] \<and>
         2 \<le> executor_calls (snd (install_package e package spec)) \<and>
         job_failed e (package, spec) =
           (retryable (subprocess_run e (install_call package spec) 1) \<and>
            retryable (subprocess_run e (install_call package spec) 2)) \<and>
         (job_failed e (package, spec) \<longrightarrow>
            executor_calls (snd (install_package e package spec)) = NETWORK_RETRIES + 1)"
proof -
  let ?c = "install_call package spec"
  let ?tr = "snd (install_package e package spec)"
  have tr: "take 4 ?tr = [Run (show_call package), Run ?c, Sleep 5, Run ?c]"
    using attempts_first_nonzero [OF assms(2)]
    by (simp add: install_package_dispatch [OF assms(1)] del: attempts.simps)
  have "executor_calls (take 4 ?tr) = 2"
    unfolding tr
    by (simp add: executor_calls_def install_is_install show_is_not_install del: is_install.simps(1))
  with executor_calls_take [of 4 ?tr] have two: "2 \<le> executor_calls ?tr"
    by simp
  have res: "fst (install_package e package spec) = fst (attempts e package spec [0, 1, 2])"
    and trace: "?tr = Run (show_call package) # snd (attempts e package spec [0, 1, 2])"
    by (simp_all add: install_package_dispatch [OF assms(1)] del: attempts.simps)
  have failed: "job_failed e (package, spec) =
      (retryable (subprocess_run e ?c 1) \<and> retryable (subprocess_run e ?c 2))"
    unfolding job_failed_def fst_conv snd_conv res using assms(2)
    by (auto simp: NETWORK_RETRIES_def retryable_def split: proc_result.splits prod.splits)
  have calls: "retryable (subprocess_run e ?c 1) \<Longrightarrow> retryable (subprocess_run e ?c 2) \<Longrightarrow>
      executor_calls ?tr = NETWORK_RETRIES + 1"
    unfolding trace using assms(2)
    by (auto simp: NETWORK_RETRIES_def retryable_def executor_calls_def install_is_install
        show_is_not_install split: proc_result.splits prod.splits simp del: is_install.simps(1))
  from tr two failed calls show ?thesis
    by blast
qed

theorem nonzero_exit_retried_until_exhausted_witness:
  "already_satisfies no_such_package (fst (get_installed_version no_such_package ''nosuchpkg'')) '''' = Inr False \<and>
   subprocess_run no_such_package (install_call ''nosuchpkg'' '''') 0 =
     CalledProcessError
          (''ERROR: Could not find a version that satisfies the requirement nosuchpkg'' @ [newline] @
           ''ERROR: No matching distribution found for nosuchpkg'' @ [newline]) \<and>
   take 4 (snd (install_package no_such_package ''nosuchpkg'' '''')) =
           [Run (show_call ''nosuchpkg''), Run (install_call ''nosuchpkg'' ''''), Sleep 5,
            Run (install_call ''nosuchpkg'' '''')] \<and>
   job_failed no_such_package (''nosuchpkg'', '''') \<and>
   executor_calls (snd (install_package no_such_package ''nosuchpkg'' '''')) = 3"
proof -
  have h1: "already_satisfies no_such_package (fst (get_installed_version no_such_package ''nosuchpkg'')) '''' = Inr False"
    by code_simp
  have h2: "subprocess_run no_such_package (install_call ''nosuchpkg'' '''') 0 =
     CalledProcessError
          (''ERROR: Could not find a version that satisfies the requirement nosuchpkg'' @ [newline] @
           ''ERROR: No matching distribution found for nosuchpkg'' @ [newline])"
    by code_simp
  have f: "job_failed no_such_package (''nosuchpkg'', '''')"
    by code_simp
  from nonzero_exit_retried_until_exhausted [OF h1 h2] f
  have c: "executor_calls (snd (install_package no_such_package ''nosuchpkg'' '''')) = NETWORK_RETRIES + 1"
    and t: "take 4 (snd (install_package no_such_package ''nosuchpkg'' '''')) =
           [Run (show_call ''nosuchpkg''), Run (install_call ''nosuchpkg'' ''''), Sleep 5,
            Run (install_call ''nosuchpkg'' '''')]"
    by blast+
  from c t h1 h2 f show ?thesis
    by (simp add: NETWORK_RETRIES_def)
qed

text \<open>
  Claim C3, as stated: when every run fails retryably, the delays between the attempts
  are one base delay times the number of the retry, hence strictly increasing. It fails
  when the failures are of both kinds: after a timeout and then a nonzero exit the two
  delays are 10 and 10.
\<close>

theorem mixed_failures_equal_delays:
  "delays (snd (install_package timeout_then_refused ''requests'' ''>=2.28.0'')) = [10, 10] \<and>
   \<not> sorted_wrt (<) (delays (snd (install_package timeout_then_refused ''requests'' ''>=2.28.0''))) \<and>
   executor_calls (snd (install_package timeout_then_refused ''requests'' ''>=2.28.0'')) = 3"
  by code_simp

text \<open>
  Claim C3, amended. When every \<^verbatim>\<open>pip install\<close> run of a dispatched package ends in
  \<^verbatim>\<open>CalledProcessError\<close> or \<^verbatim>\<open>TimeoutExpired\<close>, the job returns a failure after
  exactly \<open>NETWORK_RETRIES + 1\<close> runs; the first run follows the version query with no
  sleep before it; the delay before retry \<open>k\<close> is \<open>5 * k\<close> after a nonzero exit and
  \<open>10 * k\<close> after a timeout; the delays are strictly increasing when the first two
  failures are of the same kind.
\<close>

theorem retryable_failures_exhaust_attempts:
  assumes "already_satisfies e (fst (get_installed_version e package)) spec = Inr False"
    and "\<forall>k \<le> NETWORK_RETRIES. retryable (subprocess_run e (install_call package spec) k)"
  shows "(\<exists>msg. fst (install_package e package spec) = Inr (Some (package, False, msg))) \<and>
         executor_calls (snd (install_package e package spec)) = NETWORK_RETRIES + 1 \<and>
         snd (install_package e package spec) =
           [Run (show_call package),
            Run (install_call package spec),
            Sleep (backoff_base (subprocess_run e (install_call package spec) 0) * 1),
            Run (install_call package spec),
            Sleep (backoff_base (subprocess_run e (install_call package spec) 1) * 2),
            Run (install_call package spec)] \<and>
         (backoff_base (subprocess_run e (install_call package spec) 0) =
          backoff_base (subprocess_run e (install_call package spec) 1) \<longrightarrow>
          sorted_wrt (<) (delays (snd (install_package e package spec))))"
proof -
  let ?c = "install_call package spec"
  from assms(2) have r: "retryable (subprocess_run e ?c 0)" "retryable (subprocess_run e ?c 1)"
      "retryable (subprocess_run e ?c 2)"
    by (simp_all add: NETWORK_RETRIES_def)
  from attempts_all_fail [OF r] obtain msg where a: "attempts e package spec [0, 1, 2] =
     (Inr (Some (package, False, msg)),
      [Run ?c, Sleep (backoff_base (subprocess_run e ?c 0) * 1), Run ?c,
       Sleep (backoff_base (subprocess_run e ?c 1) * 2), Run ?c])"
    by blast
  have ip: "install_package e package spec =
     (Inr (Some (package, False, msg)),
      [Run (show_call package), Run ?c, Sleep (backoff_base (subprocess_run e ?c 0) * 1), Run ?c,
       Sleep (backoff_base (subprocess_run e ?c 1) * 2), Run ?c])"
    unfolding install_package_dispatch [OF assms(1)] a by simp
  have pos: "0 < backoff_base (subprocess_run e ?c 1)"
    by (simp add: backoff_base_def split: proc_result.splits)
  show ?thesis
    unfolding ip using pos
    by (simp add: executor_calls_def install_is_install show_is_not_install NETWORK_RETRIES_def
        del: is_install.simps(1))
qed

theorem retryable_failures_exhaust_attempts_witness:
  "already_satisfies always_refused (fst (get_installed_version always_refused ''requests'')) ''>=2.28.0'' = Inr False \<and>
   retryable (subprocess_run always_refused (install_call ''requests'' ''>=2.28.0'') 0) \<and>
   retryable (subprocess_run always_refused (install_call ''requests'' ''>=2.28.0'') 1) \<and>
   retryable (subprocess_run always_refused (install_call ''requests'' ''>=2.28.0'') 2) \<and>
   fst (install_package always_refused ''requests'' ''>=2.28.0'') =
     Inr (Some (''requests'', False, ''ERROR: Connection refused'')) \<and>
   executor_calls (snd (install_package always_refused ''requests'' ''>=2.28.0'')) = 3 \<and>
   delays (snd (install_package always_refused ''requests'' ''>=2.28.0'')) = [5, 10] \<and>
   sorted_wrt (<) (delays (snd (install_package always_refused ''requests'' ''>=2.28.0'')))"
proof -
  have h1: "already_satisfies always_refused (fst (get_installed_version always_refused ''requests'')) ''>=2.28.0'' = Inr False"
    by code_simp
  have h2: "\<forall>k \<le> NETWORK_RETRIES. retryable (subprocess_run always_refused (install_call ''requests'' ''>=2.28.0'') k)"
    by (simp add: always_refused_def pip_world_def install_call_def retryable_def)
  have v: "fst (install_package always_refused ''requests'' ''>=2.28.0'') =
     Inr (Some (''requests'', False, ''ERROR: Connection refused''))"
    "delays (snd (install_package always_refused ''requests'' ''>=2.28.0'')) = [5, 10]"
    by code_simp+
  from retryable_failures_exhaust_attempts [OF h1 h2]
  have c: "executor_calls (snd (install_package always_refused ''requests'' ''>=2.28.0'')) = NETWORK_RETRIES + 1"
    by blast
  from c h1 h2 v show ?thesis
    by (simp add: NETWORK_RETRIES_def)
qed

section \<open>The version check\<close>

text \<open>
  Claim C4, as stated: an unparsable version makes the check answer "not satisfied", so
  that the package is dispatched, and nothing is raised. It fails: with flask installed
  at 2.2.0 and the constraint \<^verbatim>\<open>>=latest\<close>, \<^verbatim>\<open>version.parse\<close> raises
  \<^verbatim>\<open>InvalidVersion\<close>, nothing in \<open>install_package\<close> catches it, and no
  \<^verbatim>\<open>pip install\<close> run is made.
\<close>

theorem unparsable_constraint_raises:
  "install_package flask_installed ''flask'' ''>=latest'' =
     (Inl InvalidVersion, [Run (show_call ''flask'')]) \<and>
   executor_calls (snd (install_package flask_installed ''flask'' ''>=latest'')) = 0"
  by code_simp

text \<open>
  Claim C4, amended. The check is not total: when a non-empty installed version is
  reported, and it or the non-empty version part of the constraint is unparsable, the
  \<^verbatim>\<open>InvalidVersion\<close> of \<^verbatim>\<open>version.parse\<close> leaves \<open>install_package\<close>; the trace of
  the job is the version query alone, so the package is not dispatched.
\<close>

theorem version_check_not_total:
  assumes "fst (get_installed_version e package) = Some cur"
    and "cur \<noteq> []"
    and "lstrip_chars ''>='' spec \<noteq> []"
    and "version_parse e cur = None \<or> version_parse e (lstrip_chars ''>='' spec) = None"
  shows "install_package e package spec = (Inl InvalidVersion, [Run (show_call package)])"
proof -
  obtain c tr0 where g: "get_installed_version e package = (c, tr0)"
    by (cases "get_installed_version e package")
  from get_installed_version_trace [of e package] g have tr0: "tr0 = [Run (show_call package)]"
    by simp
  from assms(1) g have c: "c = Some cur" by simp
  from assms(2,4) have "already_satisfies e (Some cur) spec = Inl InvalidVersion"
    by (auto simp: already_satisfies_def split: option.splits)
  with g c tr0 show ?thesis
    by (simp add: install_package_def)
qed

theorem version_check_not_total_witness:
  "fst (get_installed_version flask_installed ''flask'') = Some ''2.2.0'' \<and>
   ''2.2.0'' \<noteq> [] \<and>
   lstrip_chars ''>='' ''>=latest'' \<noteq> [] \<and>
   (version_parse flask_installed ''2.2.0'' = None \<or>
    version_parse flask_installed (lstrip_chars ''>='' ''>=latest'') = None) \<and>
   install_package flask_installed ''flask'' ''>=latest'' =
     (Inl InvalidVersion, [Run (show_call ''flask'')])"
proof -
  have h1: "fst (get_installed_version flask_installed ''flask'') = Some ''2.2.0''"
    by code_simp
  have h2: "''2.2.0'' \<noteq> []"
    by simp
  have h3: "lstrip_chars ''>='' ''>=latest'' \<noteq> []"
    by code_simp
  have h4: "version_parse flask_installed ''2.2.0'' = None \<or>
    version_parse flask_installed (lstrip_chars ''>='' ''>=latest'') = None"
    by code_simp
  from version_check_not_total [OF h1 h2 h3 h4] h1 h2 h3 h4 show ?thesis
    by blast
qed

text \<open>
  Claim C5: an unconstrained request is satisfied by any installed version, so a second
  run over installed packages reports every one as already satisfied. On the code, with
  flask installed at 2.2.0 and the empty constraint, the check parses the empty string
  as a version; the parser rejects it, and the job, and with it the batch, ends in
  \<^verbatim>\<open>InvalidVersion\<close>. The command line a few lines below does treat the empty
  constraint on its own (\<^verbatim>\<open>if spec else package\<close>).
\<close>

theorem unconstrained_installed_package_raises:
  "fst (get_installed_version flask_installed ''flask'') = Some ''2.2.0'' \<and>
   install_package flask_installed ''flask'' '''' = (Inl InvalidVersion, [Run (show_call ''flask'')]) \<and>
   fst (parallel_install flask_installed [(''flask'', '''')]) = Inl InvalidVersion"
  by code_simp

section \<open>Timeouts of the subprocess calls\<close>

text \<open>
  Claim C9: every blocking call carries a timeout. On the code, the \<^verbatim>\<open>pip install\<close>
  run has one (twice \<open>NETWORK_TIMEOUT\<close>), the \<^verbatim>\<open>pip show\<close> run of
  \<open>get_installed_version\<close> and the \<^verbatim>\<open>pip uninstall\<close> run of \<open>uninstall_packages\<close>
  have none.
\<close>

theorem calls_without_timeout:
  "call_timeouts (snd (get_installed_version e package)) = [None] \<and>
   timeout (uninstall_call package) = None \<and>
   timeout (install_call package spec) = Some 60"
  by (simp add: get_installed_version_trace show_call_def uninstall_call_def install_call_def
      NETWORK_TIMEOUT_def)

text \<open>The same on concrete runs of the three operations.\<close>

theorem calls_without_timeout_run:
  "call_timeouts (snd (get_installed_version flask_only ''flask'')) = [None] \<and>
   call_timeouts (snd (uninstall_packages flask_only [''flask''])) = [None] \<and>
   call_timeouts (snd (install_package flask_only ''requests'' ''>=2.28.0'')) = [None, Some 60]"
  by code_simp

section \<open>The batch\<close>

text \<open>
  Claim C7, as stated: the list of failed packages is in completion order, not in
  request order. It fails: numpy is requested first and fails last (three timeouts),
  whois is requested second and fails first; the list returned is numpy, whois.
\<close>

theorem failed_not_in_completion_order:
  "fst (parallel_install slow_and_fast [(''numpy'', ''''), (''whois'', '''')]) = Inr [''numpy'', ''whois''] \<and>
   done_at slow_and_fast ''whois'' < done_at slow_and_fast ''numpy'' \<and>
   \<not> in_completion_order slow_and_fast [''numpy'', ''whois'']"
  by code_simp

text \<open>
  Claim C7, amended. The results are taken from the futures in the order of submission,
  which is the order of the requests: the list of failed packages is the list of the
  requested packages whose job failed, in request order, and the instants at which the
  jobs complete have no influence on what the batch returns.
\<close>

theorem failed_in_request_order:
  assumes "parallel_install e packages = (Inr failed, out)"
  shows "failed = map fst (filter (job_failed e) packages) \<and>
         parallel_install (e\<lparr>done_at := d\<rparr>) packages = parallel_install e packages"
  using assms results_loop_failed [of e packages "length packages" 0 "[]" "[Banner (length packages) MAX_WORKERS]" failed out]
  by (simp add: parallel_install_def results_loop_done_at)

theorem failed_in_request_order_witness:
  "parallel_install slow_and_fast [(''numpy'', ''''), (''whois'', '''')] =
     (Inr [''numpy'', ''whois''],
      [Banner 2 3, Progress False 1 2 ''numpy'' ''Timeout'',
       Progress False 2 2 ''whois'' ''ERROR: No matching distribution found for whois'']) \<and>
   [''numpy'', ''whois''] = map fst (filter (job_failed slow_and_fast) [(''numpy'', ''''), (''whois'', '''')]) \<and>
   parallel_install (slow_and_fast\<lparr>done_at := \<lambda>p. 0\<rparr>) [(''numpy'', ''''), (''whois'', '''')] =
   parallel_install slow_and_fast [(''numpy'', ''''), (''whois'', '''')]"
proof -
  have h: "parallel_install slow_and_fast [(''numpy'', ''''), (''whois'', '''')] =
     (Inr [''numpy'', ''whois''],
      [Banner 2 3, Progress False 1 2 ''numpy'' ''Timeout'',
       Progress False 2 2 ''whois'' ''ERROR: No matching distribution found for whois''])"
    by code_simp
  from failed_in_request_order [OF h, of "\<lambda>p. 0"] h show ?thesis
    by blast
qed




end
